theory Spec2Isabelle
  imports Main
begin

section \<open>JavaScript strings and numbers used by the notifier\<close>

text \<open>
  Strings are lists of characters. The whitespace class is the ASCII part of what
  \<^verbatim>\<open>String.prototype.trim\<close> and the regular expression \<^verbatim>\<open>\s\<close> accept
  (tab, line feed, vertical tab, form feed, carriage return, space).
\<close>

definition is_space :: "char \<Rightarrow> bool" where
  "is_space c = (c \<in> set [CHR 0x09, CHR 0x0A, CHR 0x0B, CHR 0x0C, CHR 0x0D, CHR '' ''])"

text \<open>\<^verbatim>\<open>s.trim()\<close>\<close>

definition trim :: "string \<Rightarrow> string" where
  "trim s = rev (dropWhile is_space (rev (dropWhile is_space s)))"

text \<open>\<^verbatim>\<open>s.includes(sub)\<close>: \<open>sub\<close> occurs as a contiguous substring of \<open>s\<close>.\<close>

fun starts_with :: "string \<Rightarrow> string \<Rightarrow> bool" where
  "starts_with s [] = True"
| "starts_with [] (y # ys) = False"
| "starts_with (x # xs) (y # ys) = (x = y \<and> starts_with xs ys)"

fun str_includes :: "string \<Rightarrow> string \<Rightarrow> bool" where
  "str_includes [] sub = (sub = [])"
| "str_includes (x # xs) sub = (starts_with (x # xs) sub \<or> str_includes xs sub)"

text \<open>\<^verbatim>\<open>s.split(c)\<close> for a one-character separator; the empty string splits to \<^verbatim>\<open>['']\<close>.\<close>

fun split_char :: "char \<Rightarrow> string \<Rightarrow> string list" where
  "split_char c [] = [[]]"
| "split_char c (x # xs) =
     (if x = c then [] # split_char c xs
      else (case split_char c xs of
              [] \<Rightarrow> [[x]]
            | y # ys \<Rightarrow> (x # y) # ys))"

text \<open>
  \<^verbatim>\<open>s.split(/\s+/)\<close>: every maximal run of whitespace is one separator; a run at the
  start or the end of the string leaves an empty first or last field.
  The argument \<open>run\<close> tells whether the previous character was whitespace.
\<close>

fun split_ws_from :: "bool \<Rightarrow> string \<Rightarrow> string list" where
  "split_ws_from run [] = [[]]"
| "split_ws_from run (x # xs) =
     (if is_space x then (if run then split_ws_from True xs else [] # split_ws_from True xs)
      else (case split_ws_from False xs of
              [] \<Rightarrow> [[x]]
            | y # ys \<Rightarrow> (x # y) # ys))"

definition split_ws :: "string \<Rightarrow> string list" where
  "split_ws s = split_ws_from False s"

text \<open>JavaScript truthiness of an optional string: \<^verbatim>\<open>undefined\<close> and \<^verbatim>\<open>''\<close> are falsy.\<close>

fun truthy :: "string option \<Rightarrow> bool" where
  "truthy None = False"
| "truthy (Some s) = (s \<noteq> [])"

text \<open>
  A JavaScript number as far as the notifier uses one: an integer or \<^verbatim>\<open>NaN\<close>.
  Process ids and the multiplexer's activity stamps (seconds since the epoch) are
  printed in decimal, so fractions and exponents are not modelled.
\<close>

datatype jsnumber = NaN | Num int

text \<open>The relational operator \<^verbatim>\<open>a > b\<close>: false as soon as one side is \<^verbatim>\<open>NaN\<close>.\<close>

fun js_gt :: "jsnumber \<Rightarrow> jsnumber \<Rightarrow> bool" where
  "js_gt (Num a) (Num b) = (a > b)"
| "js_gt _ _ = False"

text \<open>Position of a character in a string, used to read and print digits.\<close>

fun index_of :: "char \<Rightarrow> string \<Rightarrow> nat option" where
  "index_of c [] = None"
| "index_of c (x # xs) =
     (if x = c then Some 0 else map_option Suc (index_of c xs))"

definition is_digit :: "char \<Rightarrow> bool" where
  "is_digit c = (index_of c ''0123456789'' \<noteq> None)"

definition digit_val :: "char \<Rightarrow> nat" where
  "digit_val c = (case index_of c ''0123456789'' of None \<Rightarrow> 0 | Some n \<Rightarrow> n)"

definition is_hex_digit :: "char \<Rightarrow> bool" where
  "is_hex_digit c = (index_of c ''0123456789abcdefABCDEF'' \<noteq> None)"

definition hex_val :: "char \<Rightarrow> nat" where
  "hex_val c = (case index_of c ''0123456789abcdef'' of
                  Some n \<Rightarrow> n
                | None \<Rightarrow> (case index_of c ''ABCDEF'' of None \<Rightarrow> 0 | Some n \<Rightarrow> 10 + n))"

definition digits_value :: "nat \<Rightarrow> (char \<Rightarrow> nat) \<Rightarrow> string \<Rightarrow> nat" where
  "digits_value radix val ds = foldl (\<lambda>acc d. acc * radix + val d) 0 ds"

text \<open>
  \<^verbatim>\<open>Number.parseInt(s)\<close> without a radix: leading whitespace is skipped, a sign is
  read, a \<^verbatim>\<open>0x\<close> prefix selects base sixteen, the longest prefix of digits is
  converted and anything after it is ignored; no digit at all gives \<^verbatim>\<open>NaN\<close>.
\<close>

definition parse_magnitude :: "string \<Rightarrow> nat option" where
  "parse_magnitude s =
     (if starts_with s ''0x'' \<or> starts_with s ''0X'' then
        (let ds = takeWhile is_hex_digit (drop 2 s)
         in if ds = [] then None else Some (digits_value 16 hex_val ds))
      else
        (let ds = takeWhile is_digit s
         in if ds = [] then None else Some (digits_value 10 digit_val ds)))"

definition parseInt :: "string \<Rightarrow> jsnumber" where
  "parseInt s =
     (let t = dropWhile is_space s;
          neg = starts_with t ''-'';
          u = (if starts_with t ''-'' \<or> starts_with t ''+'' then drop 1 t else t)
      in case parse_magnitude u of
           None \<Rightarrow> NaN
         | Some m \<Rightarrow> Num (if neg then - int m else int m))"

text \<open>
  \<^verbatim>\<open>Number(x)\<close> on the third field of a client line: \<^verbatim>\<open>undefined\<close> gives
  \<^verbatim>\<open>NaN\<close>, a blank string gives 0, an optionally signed decimal numeral gives its
  value, any other text gives \<^verbatim>\<open>NaN\<close>.
\<close>

definition js_Number :: "string option \<Rightarrow> jsnumber" where
  "js_Number x =
     (case x of
        None \<Rightarrow> NaN
      | Some s \<Rightarrow>
          (let t = trim s;
               neg = starts_with t ''-'';
               u = (if starts_with t ''-'' \<or> starts_with t ''+'' then drop 1 t else t)
           in if t = [] then Num 0
              else if u \<noteq> [] \<and> list_all is_digit u
                   then Num (if neg then - int (digits_value 10 digit_val u)
                             else int (digits_value 10 digit_val u))
              else NaN))"

text \<open>\<^verbatim>\<open>n.toString()\<close> for an integer: decimal digits, most significant first.\<close>

fun nat_digits :: "nat \<Rightarrow> string" where
  "nat_digits n =
     (if n < 10 then [''0123456789'' ! n]
      else nat_digits (n div 10) @ [''0123456789'' ! (n mod 10)])"

declare nat_digits.simps [simp del]

definition int_toString :: "int \<Rightarrow> string" where
  "int_toString i = (if i < 0 then CHR ''-'' # nat_digits (nat (- i)) else nat_digits (nat i))"

fun number_toString :: "jsnumber \<Rightarrow> string" where
  "number_toString NaN = ''NaN''"
| "number_toString (Num i) = int_toString i"

section \<open>The command runner\<close>

text \<open>
  \<^verbatim>\<open>runCommand\<close> spawns a process and resolves with its standard output when the
  exit code is 0; it rejects with a \<^verbatim>\<open>CommandError\<close> carrying message, code,
  stderr and stdout otherwise, and with the spawn error when the program cannot be launched.
  \<open>Error\<close> is a plain \<^verbatim>\<open>new Error(message)\<close>, \<open>TypeError\<close> the exception of
  \<^verbatim>\<open>reduce\<close> on an empty array. A process ended by a signal has no exit code
  and is rejected like a non-zero one; it is not told apart here.
\<close>

datatype error =
    CommandError string int string string
  | SpawnError string
  | TypeError
  | Error string


text \<open>\<^verbatim>\<open>xs.join(sep)\<close>\<close>

fun join :: "string \<Rightarrow> string list \<Rightarrow> string" where
  "join sep [] = []"
| "join sep [x] = x"
| "join sep (x # y # ys) = x @ sep @ join sep (y # ys)"

text \<open>What the operating system answers to one spawned command.\<close>

datatype outcome =
    Exited int string string
  | SpawnFailed string

type_synonym command = "string \<times> string list"

text \<open>
  The operating system is a transition function on a state of its own: the same
  command may answer differently each time it is run. \<open>calls\<close> records every
  command spawned so far, in order.
\<close>

type_synonym 'o spawn = "'o \<Rightarrow> command \<Rightarrow> outcome \<times> 'o"

record 'o world =
  os :: 'o
  calls :: "command list"

type_synonym ('o, 'a) io = "'o world \<Rightarrow> (error + 'a) \<times> 'o world"

definition ret :: "'a \<Rightarrow> ('o, 'a) io" where
  "ret x = (\<lambda>w. (Inr x, w))"

definition throw :: "error \<Rightarrow> ('o, 'a) io" where
  "throw e = (\<lambda>w. (Inl e, w))"

text \<open>\<^verbatim>\<open>const x = await m; f(x)\<close>: a rejection of \<open>m\<close> skips \<open>f\<close>.\<close>

definition bindE :: "('o, 'a) io \<Rightarrow> ('a \<Rightarrow> ('o, 'b) io) \<Rightarrow> ('o, 'b) io" where
  "bindE m f = (\<lambda>w. case m w of
                      (Inl e, w') \<Rightarrow> (Inl e, w')
                    | (Inr x, w') \<Rightarrow> f x w')"

text \<open>\<^verbatim>\<open>try { m } catch (_) { h }\<close>\<close>

definition catchE :: "('o, 'a) io \<Rightarrow> (error \<Rightarrow> ('o, 'a) io) \<Rightarrow> ('o, 'a) io" where
  "catchE m h = (\<lambda>w. case m w of
                       (Inl e, w') \<Rightarrow> h e w'
                     | (Inr x, w') \<Rightarrow> (Inr x, w'))"

definition runCommand :: "'o spawn \<Rightarrow> string \<Rightarrow> string list \<Rightarrow> ('o, string) io" where
  "runCommand sp command args =
     (\<lambda>w. case sp (os w) (command, args) of
            (out, o') \<Rightarrow>
              ((case out of
                  Exited code stdout stderr \<Rightarrow>
                    (if code = 0 then Inr stdout
                     else Inl (CommandError
                                 (''Command failed: '' @ command @ '' '' @ join '' '' args @
                                  [CHR 0x0A] @ stderr)
                                 code stderr stdout))
                | SpawnFailed msg \<Rightarrow> Inl (SpawnError msg)),
               \<lparr>os = o', calls = calls w @ [(command, args)]\<rparr>))"

section \<open>The session directory\<close>

record TmuxInfo =
  session :: string
  window :: string
  pane :: string

definition display_message :: "string \<Rightarrow> string list" where
  "display_message fmt = [''display-message'', ''-p'', fmt]"

text \<open>\<^verbatim>\<open>getCurrentTmuxInfo\<close>: three queries in sequence inside one \<^verbatim>\<open>try\<close>.\<close>

definition tmuxQuery :: "'o spawn \<Rightarrow> string \<Rightarrow> ('o, string) io" where
  "tmuxQuery sp fmt = runCommand sp ''tmux'' (display_message fmt)"

definition getCurrentTmuxInfo :: "'o spawn \<Rightarrow> ('o, TmuxInfo option) io" where
  "getCurrentTmuxInfo sp =
     catchE
       (bindE (tmuxQuery sp ''#{session_name}'') (\<lambda>o1.
        bindE (tmuxQuery sp ''#{window_index}'') (\<lambda>o2.
        bindE (tmuxQuery sp ''#{pane_index}'') (\<lambda>o3.
        ret (Some \<lparr>session = trim o1, window = trim o2, pane = trim o3\<rparr>)))))
       (\<lambda>_. ret None)"

text \<open>\<^verbatim>\<open>output.trim().split('\n').filter(Boolean)\<close>\<close>

definition nonempty_lines :: "string \<Rightarrow> string list" where
  "nonempty_lines output = filter (\<lambda>l. l \<noteq> []) (split_char CHR 0x0A (trim output))"

definition listSessions :: "'o spawn \<Rightarrow> ('o, string list) io" where
  "listSessions sp =
     catchE
       (bindE (runCommand sp ''tmux'' [''list-sessions'', ''-F'', ''#{session_name}''])
          (\<lambda>output. ret (nonempty_lines output)))
       (\<lambda>_. ret [])"

text \<open>\<^verbatim>\<open>sessions.includes(session)\<close> on the list that \<^verbatim>\<open>listSessions\<close> returned.\<close>

definition sessionExists :: "'o spawn \<Rightarrow> string \<Rightarrow> ('o, bool) io" where
  "sessionExists sp name =
     bindE (listSessions sp) (\<lambda>sessions. ret (name \<in> set sessions))"

section \<open>The terminal resolver\<close>

datatype TerminalType = VSCode | Cursor | iTerm2 | Terminal | alacritty | Unknown

text \<open>\<^verbatim>\<open>process.env\<close>: a snapshot mapping variable names to values.\<close>

type_synonym env = "string \<Rightarrow> string option"

text \<open>\<^verbatim>\<open>xs[i]\<close>, which is \<^verbatim>\<open>undefined\<close> out of range.\<close>

definition nth_opt :: "'a list \<Rightarrow> nat \<Rightarrow> 'a option" where
  "nth_opt xs i = (if i < length xs then Some (xs ! i) else None)"

subsection \<open>The active multiplexer client\<close>

text \<open>
  One line of \<^verbatim>\<open>tmux list-clients\<close>, destructured as
  \<^verbatim>\<open>const [tty, session, activity] = line.split('|')\<close>. The array that
  \<^verbatim>\<open>split\<close> returns has at least one element, so \<open>tty\<close> is always a string;
  the other two fields are \<^verbatim>\<open>undefined\<close> when the line has too few bars.
\<close>

record Client =
  c_tty :: string
  c_session :: "string option"
  c_activity :: jsnumber

record ActiveClientInfo =
  tty :: string
  client_session :: "string option"
  activity :: string

definition parseClient :: "string \<Rightarrow> Client" where
  "parseClient line =
     (let fields = split_char CHR ''|'' line
      in \<lparr>c_tty = (case fields of [] \<Rightarrow> [] | t # _ \<Rightarrow> t),
          c_session = nth_opt fields 1,
          c_activity = js_Number (nth_opt fields 2)\<rparr>)"

definition parseClients :: "string \<Rightarrow> Client list" where
  "parseClients clientsOutput = map parseClient (nonempty_lines clientsOutput)"

text \<open>The callback of \<^verbatim>\<open>reduce\<close>: \<^verbatim>\<open>curr.activity > prev.activity ? curr : prev\<close>.\<close>

definition moreRecent :: "Client \<Rightarrow> Client \<Rightarrow> Client" where
  "moreRecent prev current =
     (if js_gt (c_activity current) (c_activity prev) then current else prev)"

text \<open>
  \<^verbatim>\<open>clients.reduce(f)\<close> without an initial value: the first element starts the
  accumulation, and an empty array raises a \<^verbatim>\<open>TypeError\<close>.
\<close>

fun reduce :: "('a \<Rightarrow> 'a \<Rightarrow> 'a) \<Rightarrow> 'a list \<Rightarrow> ('o, 'a) io" where
  "reduce f [] = throw TypeError"
| "reduce f (x # xs) = ret (foldl f x xs)"

definition list_clients :: "string \<Rightarrow> string list" where
  "list_clients target =
     [''list-clients'', ''-t'', target, ''-F'',
      ''#{client_tty}|#{client_session}|#{client_activity}'']"

definition getActiveClientInfo :: "env \<Rightarrow> 'o spawn \<Rightarrow> ('o, ActiveClientInfo option) io" where
  "getActiveClientInfo env sp =
     catchE
       (bindE (if truthy (env ''TMUX_PANE'')
               then bindE (tmuxQuery sp ''#{session_name}'') (\<lambda>out. ret (Some out))
               else ret None) (\<lambda>currentSession.
        case currentSession of
          None \<Rightarrow> ret None
        | Some cur \<Rightarrow>
            if cur = [] then ret None
            else
              bindE (runCommand sp ''tmux'' (list_clients (trim cur))) (\<lambda>clientsOutput.
              bindE (reduce moreRecent (parseClients clientsOutput)) (\<lambda>activeClient.
              ret (Some \<lparr>tty = c_tty activeClient,
                         client_session = c_session activeClient,
                         activity = number_toString (c_activity activeClient)\<rparr>)))))
       (\<lambda>_. ret None)"

subsection \<open>Terminal of the process holding a client's TTY\<close>

text \<open>The chain of \<^verbatim>\<open>command.includes\<close> tests applied to a holder of the TTY.\<close>

definition matchTtyHolder :: "string \<Rightarrow> TerminalType option" where
  "matchTtyHolder command =
     (if str_includes command ''Cursor'' then Some Cursor
      else if str_includes command ''Code'' then Some VSCode
      else if str_includes command ''iTerm2'' then Some iTerm2
      else if str_includes command ''Terminal'' then Some Terminal
      else if str_includes command ''alacritty'' then Some alacritty
      else None)"

text \<open>
  The loop over the lines of \<^verbatim>\<open>lsof\<close>; \<open>None\<close> means that the loop ended
  without a \<^verbatim>\<open>return\<close>.
\<close>

fun matchTtyHolders :: "'o spawn \<Rightarrow> string list \<Rightarrow> ('o, TerminalType option) io" where
  "matchTtyHolders sp [] = ret None"
| "matchTtyHolders sp (line # lines) =
     (let parts = split_ws line
      in if length parts < 2 then matchTtyHolders sp lines
         else
           bindE (runCommand sp ''ps'' [''-p'', parts ! 1, ''-o'', ''comm='']) (\<lambda>psOutput.
             case matchTtyHolder (trim psOutput) of
               Some t \<Rightarrow> ret (Some t)
             | None \<Rightarrow> matchTtyHolders sp lines))"

declare matchTtyHolders.simps [simp del]

definition detectTerminalFromClient :: "'o spawn \<Rightarrow> string \<Rightarrow> ('o, TerminalType) io" where
  "detectTerminalFromClient sp clientTty =
     bindE
       (catchE
          (bindE (runCommand sp ''lsof'' [clientTty]) (\<lambda>lsofOutput.
             matchTtyHolders sp (drop 1 (split_char CHR 0x0A (trim lsofOutput)))))
          (\<lambda>_. ret None))
       (\<lambda>found. case found of
                   Some t \<Rightarrow> ret t
                 | None \<Rightarrow> ret Unknown)"

subsection \<open>The process-tree walk\<close>

text \<open>
  \<^verbatim>\<open>const [ppidStr, command] = psOutput.trim().split(/\s+/, 2)\<close> followed by
  \<^verbatim>\<open>Number.parseInt(ppidStr)\<close>; a missing field is \<^verbatim>\<open>undefined\<close>, which
  \<^verbatim>\<open>parseInt\<close> turns into \<^verbatim>\<open>NaN\<close>.
\<close>

definition psFields :: "string \<Rightarrow> string list" where
  "psFields psOutput = take 2 (split_ws (trim psOutput))"

definition ppidOf :: "string \<Rightarrow> jsnumber" where
  "ppidOf psOutput =
     (case nth_opt (psFields psOutput) 0 of
        None \<Rightarrow> NaN
      | Some ppidStr \<Rightarrow> parseInt ppidStr)"

definition commandOf :: "string \<Rightarrow> string option" where
  "commandOf psOutput = nth_opt (psFields psOutput) 1"

text \<open>The tests on the command name of an ancestor, inside \<^verbatim>\<open>if (command)\<close>.\<close>

definition matchAncestor :: "string option \<Rightarrow> TerminalType option" where
  "matchAncestor command =
     (case command of
        None \<Rightarrow> None
      | Some c \<Rightarrow>
          if c = [] then None
          else if str_includes c ''Cursor'' then Some Cursor
          else if str_includes c ''Code'' \<or> str_includes c ''code-insiders'' then Some VSCode
          else if str_includes c ''iTerm2'' then Some iTerm2
          else if str_includes c ''Terminal'' then Some Terminal
          else None)"

text \<open>
  The loop \<^verbatim>\<open>for (let i = 0; i < maxDepth; i++)\<close>; the second argument counts the
  iterations that remain. \<open>None\<close> means that the loop ended by \<^verbatim>\<open>break\<close> or by
  reaching the bound.
\<close>

fun processTreeWalk :: "'o spawn \<Rightarrow> nat \<Rightarrow> int \<Rightarrow> ('o, TerminalType option) io" where
  "processTreeWalk sp 0 currentPid = ret None"
| "processTreeWalk sp (Suc remaining) currentPid =
     bindE (runCommand sp ''ps'' [''-p'', int_toString currentPid, ''-o'', ''ppid=,comm=''])
       (\<lambda>psOutput.
          case ppidOf psOutput of
            NaN \<Rightarrow> ret None
          | Num ppid \<Rightarrow>
              if ppid = 0 \<or> ppid = 1 then ret None
              else (case matchAncestor (commandOf psOutput) of
                      Some t \<Rightarrow> ret (Some t)
                    | None \<Rightarrow> processTreeWalk sp remaining ppid))"

declare processTreeWalk.simps [simp del]

definition maxDepth :: nat where
  "maxDepth = 10"

subsection \<open>The strategy chain\<close>

text \<open>
  Step 6 of \<^verbatim>\<open>detectTerminalEmulator\<close>, the body of \<^verbatim>\<open>if (process.env.TMUX)\<close>;
  \<open>None\<close> means that control falls through to the process-tree walk.
\<close>

definition detectViaTmux :: "env \<Rightarrow> 'o spawn \<Rightarrow> ('o, TerminalType option) io" where
  "detectViaTmux env sp =
     catchE
       (bindE (getActiveClientInfo env sp) (\<lambda>clientInfo.
        bindE (case clientInfo of
                 None \<Rightarrow> ret None
               | Some info \<Rightarrow>
                   bindE (detectTerminalFromClient sp (tty info)) (\<lambda>detectedTerminal.
                     ret (if detectedTerminal \<noteq> Unknown then Some detectedTerminal
                          else None))) (\<lambda>early.
        case early of
          Some t \<Rightarrow> ret (Some t)
        | None \<Rightarrow>
            bindE (tmuxQuery sp ''#{client_termname}'')
              (\<lambda>clientTerm.
                 if str_includes clientTerm ''iterm'' \<or> str_includes clientTerm ''iTerm''
                   then ret (Some iTerm2)
                 else if str_includes clientTerm ''Apple_Terminal'' then ret (Some Terminal)
                 else
                   catchE
                     (bindE (runCommand sp ''tmux'' [''show-environment'', ''-g'', ''TERM_PROGRAM''])
                        (\<lambda>clientEnv.
                           if str_includes clientEnv ''TERM_PROGRAM=iTerm.app''
                             then ret (Some iTerm2)
                           else if str_includes clientEnv ''TERM_PROGRAM=Apple_Terminal''
                             then ret (Some Terminal)
                           else ret None))
                     (\<lambda>_. ret None)))))
       (\<lambda>_. ret None)"

text \<open>
  Steps 1 to 5 of \<^verbatim>\<open>detectTerminalEmulator\<close>, the environment markers in the order
  of the source; \<open>None\<close> means that none of them returned.
\<close>

definition detectFromMarkers :: "env \<Rightarrow> TerminalType option" where
  "detectFromMarkers env =
     (if truthy (env ''CURSOR_TRACE_ID'') then Some Cursor
      else if truthy (env ''VSCODE_IPC_HOOK_CLI'') then
        (if str_includes (the (env ''VSCODE_IPC_HOOK_CLI'')) ''Cursor'' then Some Cursor
         else Some VSCode)
      else if truthy (env ''VSCODE_REMOTE'') \<or> truthy (env ''VSCODE_PID'') then Some VSCode
      else if truthy (env ''ALACRITTY_WINDOW_ID'') \<or> truthy (env ''ALACRITTY_SOCKET'')
        then Some alacritty
      else if truthy (env ''TERM_PROGRAM'') then
        (if env ''TERM_PROGRAM'' = Some ''iTerm.app'' then Some iTerm2
         else if env ''TERM_PROGRAM'' = Some ''Apple_Terminal'' then Some Terminal
         else if env ''TERM_PROGRAM'' = Some ''alacritty'' then Some alacritty
         else None)
      else None)"

text \<open>
  The whole of \<^verbatim>\<open>detectTerminalEmulator\<close>: the markers, then step 6 when
  \<^verbatim>\<open>process.env.TMUX\<close> is set, then the process-tree walk inside its own
  \<^verbatim>\<open>try\<close>, then \<^verbatim>\<open>return 'Unknown'\<close>. \<open>pid\<close> is \<^verbatim>\<open>process.pid\<close>.
\<close>

definition detectTerminalEmulator :: "env \<Rightarrow> 'o spawn \<Rightarrow> int \<Rightarrow> ('o, TerminalType) io" where
  "detectTerminalEmulator env sp pid =
     (case detectFromMarkers env of
        Some t \<Rightarrow> ret t
      | None \<Rightarrow>
          bindE (if truthy (env ''TMUX'') then detectViaTmux env sp else ret None) (\<lambda>viaTmux.
          case viaTmux of
            Some t \<Rightarrow> ret t
          | None \<Rightarrow>
              bindE (catchE (processTreeWalk sp maxDepth pid) (\<lambda>_. ret None)) (\<lambda>viaTree.
              case viaTree of
                Some t \<Rightarrow> ret t
              | None \<Rightarrow> ret Unknown)))"

section \<open>The notification dispatcher\<close>

record TmuxNotifier =
  appPath :: string
  defaultTitle :: string

text \<open>
  The constructor. \<open>pkgPath\<close> and \<open>devPath\<close> are the two entries of
  \<^verbatim>\<open>possiblePaths\<close> as \<^verbatim>\<open>path.join\<close> computed them (the bundle beside the
  installed package, and the bundle under the working directory); \<open>existsSync\<close> is
  the file system. The title is the literal default: \<^verbatim>\<open>initializeDefaultTitle\<close>
  is started without being awaited and may replace it at any later moment, so
  \<^verbatim>\<open>sendNotification\<close> below is stated for any \<open>defaultTitle\<close>. The
  \<^verbatim>\<open>git\<close> commands of that background lookup are left out of \<open>calls\<close>.
\<close>

definition constructor ::
  "string option \<Rightarrow> (string \<Rightarrow> bool) \<Rightarrow> string \<Rightarrow> string \<Rightarrow> TmuxNotifier" where
  "constructor customAppPath existsSync pkgPath devPath =
     (if truthy customAppPath
      then \<lparr>appPath = the customAppPath, defaultTitle = ''macos-notify-mcp''\<rparr>
      else
        (let possiblePaths = [pkgPath, devPath];
             found = (case find existsSync possiblePaths of None \<Rightarrow> [] | Some path \<Rightarrow> path)
         in \<lparr>appPath = (if found = [] then pkgPath else found),
             defaultTitle = ''macos-notify-mcp''\<rparr>))"

text \<open>
  \<^verbatim>\<open>NotificationOptions\<close>; \<open>None\<close> is \<^verbatim>\<open>undefined\<close>. The coordinate fields
  carry the prefix \<open>to_\<close> to keep them apart from those of \<^verbatim>\<open>TmuxInfo\<close>.
\<close>

record NotificationOptions =
  title :: "string option"
  message :: string
  sound :: "string option"
  to_session :: "string option"
  to_window :: "string option"
  to_pane :: "string option"

fun terminal_name :: "TerminalType \<Rightarrow> string" where
  "terminal_name VSCode = ''VSCode''"
| "terminal_name Cursor = ''Cursor''"
| "terminal_name iTerm2 = ''iTerm2''"
| "terminal_name Terminal = ''Terminal''"
| "terminal_name alacritty = ''alacritty''"
| "terminal_name Unknown = ''Unknown''"

text \<open>The argument vector that \<^verbatim>\<open>sendNotification\<close> assembles for \<^verbatim>\<open>/usr/bin/open\<close>.\<close>

definition openArgs :: "TmuxNotifier \<Rightarrow> TerminalType \<Rightarrow> NotificationOptions \<Rightarrow> string list" where
  "openArgs n terminal options =
     [''-n'', appPath n, ''--args'',
      ''-t'', (case title options of None \<Rightarrow> defaultTitle n | Some t \<Rightarrow> t),
      ''-m'', message options,
      ''--sound'', (case sound options of None \<Rightarrow> ''Glass'' | Some s \<Rightarrow> s),
      ''--terminal'', terminal_name terminal] @
     (case to_session options of
        None \<Rightarrow> []
      | Some s \<Rightarrow>
          if s = [] then []
          else [''-s'', s] @
               (case to_window options of
                  None \<Rightarrow> []
                | Some w \<Rightarrow> if w \<noteq> [] then [''-w'', w] else []) @
               (case to_pane options of
                  None \<Rightarrow> []
                | Some p \<Rightarrow> if p \<noteq> [] then [''-p'', p] else []))"

definition sendNotification ::
  "TmuxNotifier \<Rightarrow> env \<Rightarrow> 'o spawn \<Rightarrow> int \<Rightarrow> NotificationOptions \<Rightarrow> ('o, unit) io" where
  "sendNotification n env sp pid options =
     (if appPath n = [] then throw (Error ''MacOSNotifyMCP.app not found'')
      else
        bindE (detectTerminalEmulator env sp pid) (\<lambda>terminal.
        bindE (runCommand sp ''/usr/bin/open'' (openArgs n terminal options)) (\<lambda>_.
        ret ())))"

section \<open>The command-line front end\<close>





text \<open>How a run of the command line ends; each case is one \<^verbatim>\<open>process.exit\<close>.\<close>

datatype CliResult =
    HelpShown
  | SessionsListed "string list"
  | MessageRequired
  | SessionMissing string "string list"
  | NotificationSent
  | SendFailed error

fun exitCode :: "CliResult \<Rightarrow> nat" where
  "exitCode HelpShown = 0"
| "exitCode (SessionsListed sessions) = 0"
| "exitCode MessageRequired = 1"
| "exitCode (SessionMissing name sessions) = 1"
| "exitCode NotificationSent = 0"
| "exitCode (SendFailed e) = 1"



section \<open>The protocol-tool handler\<close>









section \<open>The native notification application\<close>










section \<open>Scenarios\<close>


text \<open>A machine on which no program can be launched.\<close>

definition no_tmux :: "unit spawn" where
  "no_tmux = (\<lambda>st c. (SpawnFailed ''spawn ENOENT'', st))"

definition fresh :: "'o \<Rightarrow> 'o world" where
  "fresh st = \<lparr>os = st, calls = []\<rparr>"

text \<open>
  A multiplexer whose current client is in session \<open>dev\<close>, window 1, pane 0, with
  the sessions \<open>dev\<close> and \<open>work\<close>; the application bundle opens; every other
  command exits with code 1.
\<close>

definition tmux_at_dev :: "unit spawn" where
  "tmux_at_dev =
     (\<lambda>st c.
        (if c = (''tmux'', display_message ''#{session_name}'')
           then Exited 0 (''dev'' @ [CHR 0x0A]) []
         else if c = (''tmux'', display_message ''#{window_index}'')
           then Exited 0 (''1'' @ [CHR 0x0A]) []
         else if c = (''tmux'', display_message ''#{pane_index}'')
           then Exited 0 (''0'' @ [CHR 0x0A]) []
         else if c = (''tmux'', [''list-sessions'', ''-F'', ''#{session_name}''])
           then Exited 0 (''dev'' @ [CHR 0x0A] @ ''work'' @ [CHR 0x0A]) []
         else if fst c = ''/usr/bin/open'' then Exited 0 [] []
         else Exited 1 [] ''not available'',
         st))"

text \<open>
  A multiplexer that answers the first query and loses its client before the
  second one; the state counts the commands run so far.
\<close>

definition second_query_fails :: "nat spawn" where
  "second_query_fails =
     (\<lambda>n c. (if n = 1 then Exited 1 [] ''no current client''
              else Exited 0 (''dev'' @ [CHR 0x0A]) [],
             Suc n))"


definition ps_query :: "int \<Rightarrow> command" where
  "ps_query p = (''ps'', [''-p'', int_toString p, ''-o'', ''ppid=,comm=''])"

text \<open>
  The ancestry caller (4242), shell (4100), alacritty (4000), login (350), init (1),
  as \<^verbatim>\<open>ps -o ppid=,comm=\<close> prints it; every other command fails.
\<close>

definition under_alacritty :: "unit spawn" where
  "under_alacritty =
     (\<lambda>st c.
        (if c = ps_query 4242 then Exited 0 ('' 4100 node'' @ [CHR 0x0A]) []
         else if c = ps_query 4100 then Exited 0 ('' 4000 -zsh'' @ [CHR 0x0A]) []
         else if c = ps_query 4000
           then Exited 0 (''  350 /Applications/Alacritty.app/Contents/MacOS/alacritty'' @ [CHR 0x0A]) []
         else if c = ps_query 350 then Exited 0 (''    1 login'' @ [CHR 0x0A]) []
         else Exited 1 [] ''not available'',
         st))"

text \<open>A shell (4100) started by iTerm2 (4000), which the init process (1) started.\<close>

definition iterm_under_init :: "unit spawn" where
  "iterm_under_init =
     (\<lambda>st c.
        (if c = ps_query 4100 then Exited 0 ('' 4000 -zsh'' @ [CHR 0x0A]) []
         else if c = ps_query 4000
           then Exited 0 (''    1 /Applications/iTerm.app/Contents/MacOS/iTerm2'' @ [CHR 0x0A]) []
         else Exited 1 [] ''not available'',
         st))"




text \<open>
  A machine without the application bundle: \<^verbatim>\<open>open\<close> exits with code 1; no other
  program is available.
\<close>

definition bundle_missing :: "unit spawn" where
  "bundle_missing =
     (\<lambda>st c.
        (if fst c = ''/usr/bin/open''
           then Exited 1 [] ''The file /pkg/MacOSNotifyMCP/MacOSNotifyMCP.app does not exist.''
         else SpawnFailed ''spawn ENOENT'',
         st))"

text \<open>A shell started by iTerm2.\<close>

definition in_iterm :: env where
  "in_iterm = [''TERM_PROGRAM'' \<mapsto> ''iTerm.app'']"

text \<open>Two notification requests.\<close>

definition hello :: NotificationOptions where
  "hello = \<lparr>title = Some ''Build'', message = ''done'', sound = None,
            to_session = None, to_window = None, to_pane = None\<rparr>"




section \<open>Sequencing and exception handling\<close>

lemma bindE_ret [simp]: "bindE (ret x) f w = f x w"
  by (simp add: bindE_def ret_def)

lemma bindE_throw [simp]: "bindE (throw e) f w = (Inl e, w)"
  by (simp add: bindE_def throw_def)

lemma bindE_Inr: "m w = (Inr x, w') \<Longrightarrow> bindE m f w = f x w'"
  by (simp add: bindE_def)

lemma bindE_Inl: "m w = (Inl e, w') \<Longrightarrow> bindE m f w = (Inl e, w')"
  by (simp add: bindE_def)

lemma catchE_Inr: "m w = (Inr x, w') \<Longrightarrow> catchE m h w = (Inr x, w')"
  by (simp add: catchE_def)

lemma catchE_Inl: "m w = (Inl e, w') \<Longrightarrow> catchE m h w = h e w'"
  by (simp add: catchE_def)

lemma ret_total: "\<exists>z w'. ret x w = (Inr z, w')"
  by (simp add: ret_def)

text \<open>A \<^verbatim>\<open>try\<close> whose handler returns a value never throws.\<close>

lemma catchE_total: "\<exists>y w'. catchE m (\<lambda>_. ret x) w = (Inr y, w')"
proof (cases "m w")
  case (Pair r w1)
  then show ?thesis
    by (cases r) (simp_all add: catchE_def ret_def)
qed

lemma catchE_fail_default:
  assumes "\<exists>e w'. m w = (Inl e, w')"
  shows "\<exists>w'. catchE m (\<lambda>_. ret x) w = (Inr x, w')"
  using assms by (auto simp: catchE_def ret_def)

lemma bindE_total:
  assumes "\<exists>y w'. m w = (Inr y, w')"
    and "\<And>y w1. \<exists>z w'. f y w1 = (Inr z, w')"
  shows "\<exists>z w'. bindE m f w = (Inr z, w')"
proof -
  from assms(1) obtain y w1 where "m w = (Inr y, w1)" by blast
  then have "bindE m f w = f y w1" by (rule bindE_Inr)
  with assms(2) [of y w1] show ?thesis by simp
qed



text \<open>
  Every run of a command adds exactly that command to the record, and its failure
  is never a plain \<^verbatim>\<open>Error\<close>.
\<close>

lemma runCommand_result:
  "\<exists>r st. runCommand sp command args w = (r, \<lparr>os = st, calls = calls w @ [(command, args)]\<rparr>) \<and>
          (\<forall>msg. r \<noteq> Inl (Error msg))"
proof (cases "sp (os w) (command, args)")
  case (Pair out st)
  then show ?thesis
    by (cases out) (simp_all add: runCommand_def)
qed

lemma runCommand_calls:
  "\<exists>r st. runCommand sp command args w = (r, \<lparr>os = st, calls = calls w @ [(command, args)]\<rparr>)"
  using runCommand_result [of sp command args w] by blast

section \<open>The resolver always returns a terminal type\<close>

lemma detectViaTmux_total: "\<exists>y w'. detectViaTmux env sp w = (Inr y, w')"
  unfolding detectViaTmux_def by (rule catchE_total)

lemma detectTerminalEmulator_total:
  "\<exists>t w'. detectTerminalEmulator env sp pid w = (Inr t, w')"
proof -
  have tree: "\<exists>t w'. bindE (catchE (processTreeWalk sp maxDepth pid) (\<lambda>_. ret None))
             (\<lambda>viaTree. case viaTree of Some t \<Rightarrow> ret t | None \<Rightarrow> ret Unknown) w1 = (Inr t, w')"
    for w1 :: "'a world"
    by (rule bindE_total, rule catchE_total) (simp add: ret_def split: option.split)
  have tmux: "\<exists>y w'. (if truthy (env ''TMUX'') then detectViaTmux env sp else ret None) w
                = (Inr y, w')"
    by (simp add: detectViaTmux_total ret_total)
  have chain: "\<exists>t w'. bindE (if truthy (env ''TMUX'') then detectViaTmux env sp else ret None)
          (\<lambda>viaTmux. case viaTmux of Some t \<Rightarrow> ret t
             | None \<Rightarrow> bindE (catchE (processTreeWalk sp maxDepth pid) (\<lambda>_. ret None))
                 (\<lambda>viaTree. case viaTree of Some t \<Rightarrow> ret t | None \<Rightarrow> ret Unknown)) w = (Inr t, w')"
  proof (rule bindE_total)
    show "\<exists>y w'. (if truthy (env ''TMUX'') then detectViaTmux env sp else ret None) w
                = (Inr y, w')"
      by (rule tmux)
  next
    fix y and w1 :: "'a world"
    show "\<exists>z w'. (case y of Some t \<Rightarrow> ret t
             | None \<Rightarrow> bindE (catchE (processTreeWalk sp maxDepth pid) (\<lambda>_. ret None))
                 (\<lambda>viaTree. case viaTree of Some t \<Rightarrow> ret t | None \<Rightarrow> ret Unknown)) w1 = (Inr z, w')"
      using tree [of w1] by (cases y) (simp_all add: ret_total)
  qed
  show ?thesis
  proof (cases "detectFromMarkers env")
    case None
    with chain show ?thesis by (simp add: detectTerminalEmulator_def)
  next
    case (Some t)
    then show ?thesis by (simp add: detectTerminalEmulator_def ret_def)
  qed
qed







section \<open>The session directory degrades to defaults\<close>

text \<open>
  Claim C8. When the \<^verbatim>\<open>list-sessions\<close> query fails, \<^verbatim>\<open>listSessions\<close> returns the
  empty list instead of the error. \<^verbatim>\<open>listSessions\<close> always returns a list, and
  \<^verbatim>\<open>sessionExists\<close> returns whether the name is an element of that list; so it
  returns false whenever \<^verbatim>\<open>listSessions\<close> returns the empty list.
\<close>

theorem listSessions_empty_on_failure:
  "(\<forall>e w'. runCommand sp ''tmux'' [''list-sessions'', ''-F'', ''#{session_name}''] w = (Inl e, w')
      \<longrightarrow> listSessions sp w = (Inr [], w')) \<and>
   (\<exists>sessions w'. listSessions sp w = (Inr sessions, w') \<and>
      sessionExists sp name w = (Inr (name \<in> set sessions), w')) \<and>
   (fst (listSessions sp w) = Inr [] \<longrightarrow> fst (sessionExists sp name w) = Inr False)"
proof -
  let ?q = "runCommand sp ''tmux'' [''list-sessions'', ''-F'', ''#{session_name}'']"
  obtain r w1 where q: "?q w = (r, w1)" by (cases "?q w")
  have ls: "listSessions sp w =
      (case r of Inl e \<Rightarrow> Inr [] | Inr out \<Rightarrow> Inr (nonempty_lines out), w1)"
    using q by (cases r) (simp_all add: listSessions_def catchE_def bindE_def ret_def)
  have se: "sessionExists sp name w =
      (Inr (name \<in> set (case r of Inl e \<Rightarrow> [] | Inr out \<Rightarrow> nonempty_lines out)), w1)"
    using ls by (cases r) (simp_all add: sessionExists_def bindE_def ret_def)
  show ?thesis
    using q ls se by (cases r) auto
qed

theorem listSessions_empty_on_failure_witness:
  "listSessions no_tmux (fresh ()) =
     (Inr [], \<lparr>os = (), calls = [(''tmux'', [''list-sessions'', ''-F'', ''#{session_name}''])]\<rparr>) \<and>
   fst (sessionExists no_tmux ''x'' (fresh ())) = Inr False"
proof -
  have run: "runCommand no_tmux ''tmux'' [''list-sessions'', ''-F'', ''#{session_name}'']
               (fresh ()) =
             (Inl (SpawnError ''spawn ENOENT''),
              \<lparr>os = (), calls = [(''tmux'', [''list-sessions'', ''-F'', ''#{session_name}''])]\<rparr>)"
    by (simp add: runCommand_def no_tmux_def fresh_def)
  from listSessions_empty_on_failure [of no_tmux "fresh ()" "''x''"] run
  show ?thesis by simp
qed

section \<open>Current coordinates: all three or none\<close>

text \<open>
  Claim C7. \<^verbatim>\<open>getCurrentTmuxInfo\<close> runs the session, window and pane queries in
  this order, each in the state the previous one left. When all three succeed it
  returns the three trimmed answers; when the first, the second or the third
  fails it returns \<^verbatim>\<open>null\<close> (and runs no further query). These four cases are
  all there are, so a partial triple is never returned.
\<close>

theorem getCurrentTmuxInfo_all_or_null:
  "(\<forall>o1 w1 o2 w2 o3 w3.
      tmuxQuery sp ''#{session_name}'' w = (Inr o1, w1) \<and>
      tmuxQuery sp ''#{window_index}'' w1 = (Inr o2, w2) \<and>
      tmuxQuery sp ''#{pane_index}'' w2 = (Inr o3, w3)
      \<longrightarrow> getCurrentTmuxInfo sp w =
            (Inr (Some \<lparr>session = trim o1, window = trim o2, pane = trim o3\<rparr>), w3)) \<and>
   (\<forall>e w1.
      tmuxQuery sp ''#{session_name}'' w = (Inl e, w1)
      \<longrightarrow> getCurrentTmuxInfo sp w = (Inr None, w1)) \<and>
   (\<forall>o1 w1 e w2.
      tmuxQuery sp ''#{session_name}'' w = (Inr o1, w1) \<and>
      tmuxQuery sp ''#{window_index}'' w1 = (Inl e, w2)
      \<longrightarrow> getCurrentTmuxInfo sp w = (Inr None, w2)) \<and>
   (\<forall>o1 w1 o2 w2 e w3.
      tmuxQuery sp ''#{session_name}'' w = (Inr o1, w1) \<and>
      tmuxQuery sp ''#{window_index}'' w1 = (Inr o2, w2) \<and>
      tmuxQuery sp ''#{pane_index}'' w2 = (Inl e, w3)
      \<longrightarrow> getCurrentTmuxInfo sp w = (Inr None, w3))"
  by (simp add: getCurrentTmuxInfo_def catchE_def bindE_def ret_def)

theorem getCurrentTmuxInfo_all_or_null_witness:
  "fst (getCurrentTmuxInfo tmux_at_dev (fresh ())) =
     Inr (Some \<lparr>session = ''dev'', window = ''1'', pane = ''0''\<rparr>) \<and>
   getCurrentTmuxInfo second_query_fails (fresh 0) =
     (Inr None, \<lparr>os = 2, calls = [(''tmux'', display_message ''#{session_name}''),
                                  (''tmux'', display_message ''#{window_index}'')]\<rparr>)"
proof -
  have ok:
    "tmuxQuery tmux_at_dev ''#{session_name}'' (fresh ()) =
       (Inr (''dev'' @ [CHR 0x0A]),
        \<lparr>os = (), calls = [(''tmux'', display_message ''#{session_name}'')]\<rparr>)"
    "tmuxQuery tmux_at_dev ''#{window_index}''
        \<lparr>os = (), calls = [(''tmux'', display_message ''#{session_name}'')]\<rparr> =
       (Inr (''1'' @ [CHR 0x0A]),
        \<lparr>os = (), calls = [(''tmux'', display_message ''#{session_name}''),
                            (''tmux'', display_message ''#{window_index}'')]\<rparr>)"
    "tmuxQuery tmux_at_dev ''#{pane_index}''
        \<lparr>os = (), calls = [(''tmux'', display_message ''#{session_name}''),
                            (''tmux'', display_message ''#{window_index}'')]\<rparr> =
       (Inr (''0'' @ [CHR 0x0A]),
        \<lparr>os = (), calls = [(''tmux'', display_message ''#{session_name}''),
                            (''tmux'', display_message ''#{window_index}''),
                            (''tmux'', display_message ''#{pane_index}'')]\<rparr>)"
    by (simp_all add: tmuxQuery_def runCommand_def tmux_at_dev_def fresh_def display_message_def)
  have bad:
    "tmuxQuery second_query_fails ''#{session_name}'' (fresh 0) =
       (Inr (''dev'' @ [CHR 0x0A]),
        \<lparr>os = 1, calls = [(''tmux'', display_message ''#{session_name}'')]\<rparr>)"
    "\<exists>e. tmuxQuery second_query_fails ''#{window_index}''
        \<lparr>os = 1, calls = [(''tmux'', display_message ''#{session_name}'')]\<rparr> =
       (Inl e, \<lparr>os = 2, calls = [(''tmux'', display_message ''#{session_name}''),
                                (''tmux'', display_message ''#{window_index}'')]\<rparr>)"
    by (simp_all add: tmuxQuery_def runCommand_def second_query_fails_def fresh_def)
  have trims:
    "trim (''dev'' @ [CHR 0x0A]) = ''dev''"
    "trim (''1'' @ [CHR 0x0A]) = ''1''"
    "trim (''0'' @ [CHR 0x0A]) = ''0''"
    by (simp_all add: trim_def is_space_def)
  from getCurrentTmuxInfo_all_or_null [of tmux_at_dev "fresh ()"] ok trims
  have first: "fst (getCurrentTmuxInfo tmux_at_dev (fresh ())) =
     Inr (Some \<lparr>session = ''dev'', window = ''1'', pane = ''0''\<rparr>)"
    by simp
  from getCurrentTmuxInfo_all_or_null [of second_query_fails "fresh 0"] bad
  have second: "getCurrentTmuxInfo second_query_fails (fresh 0) =
     (Inr None, \<lparr>os = 2, calls = [(''tmux'', display_message ''#{session_name}''),
                                  (''tmux'', display_message ''#{window_index}'')]\<rparr>)"
    by blast
  from first second show ?thesis by simp
qed

section \<open>Priority of the environment markers\<close>




lemmas string_eval =
  trim_def is_space_def split_ws_def psFields_def ppidOf_def commandOf_def nth_opt_def
  parseInt_def parse_magnitude_def is_digit_def is_hex_digit_def digit_val_def hex_val_def
  digits_value_def int_toString_def nat_digits.simps

section \<open>The process-tree walk\<close>

lemma walk_break:
  assumes "runCommand sp ''ps'' [''-p'', int_toString currentPid, ''-o'', ''ppid=,comm=''] w =
             (Inr psOutput, w')"
    and "ppidOf psOutput \<in> {NaN, Num 0, Num 1}"
  shows "processTreeWalk sp (Suc remaining) currentPid w = (Inr None, w')"
  using assms by (auto simp add: processTreeWalk.simps bindE_def ret_def)

lemma walk_hop:
  assumes "runCommand sp ''ps'' [''-p'', int_toString currentPid, ''-o'', ''ppid=,comm=''] w =
             (Inr psOutput, w')"
    and "ppidOf psOutput = Num ppid" and "ppid \<noteq> 0" and "ppid \<noteq> 1"
    and "matchAncestor (commandOf psOutput) = None"
  shows "processTreeWalk sp (Suc remaining) currentPid w = processTreeWalk sp remaining ppid w'"
  using assms by (simp add: processTreeWalk.simps bindE_def)

lemma walk_match:
  assumes "runCommand sp ''ps'' [''-p'', int_toString currentPid, ''-o'', ''ppid=,comm=''] w =
             (Inr psOutput, w')"
    and "ppidOf psOutput = Num ppid" and "ppid \<noteq> 0" and "ppid \<noteq> 1"
    and "matchAncestor (commandOf psOutput) = Some t"
  shows "processTreeWalk sp (Suc remaining) currentPid w = (Inr (Some t), w')"
  using assms by (simp add: processTreeWalk.simps bindE_def ret_def)

text \<open>The walk runs at most one \<^verbatim>\<open>ps\<close> per remaining iteration.\<close>

lemma walk_exhausted: "processTreeWalk sp 0 currentPid w = (Inr None, w)"
  by (simp add: processTreeWalk.simps ret_def)

lemma walk_bounded:
  "processTreeWalk sp n currentPid w = (r, w') \<Longrightarrow> length (calls w') \<le> length (calls w) + n"
proof (induction n arbitrary: currentPid w)
  case 0
  then show ?case by (simp add: processTreeWalk.simps ret_def)
next
  case (Suc n)
  obtain r1 st where run:
    "runCommand sp ''ps'' [''-p'', int_toString currentPid, ''-o'', ''ppid=,comm=''] w =
       (r1, \<lparr>os = st, calls = calls w @
              [(''ps'', [''-p'', int_toString currentPid, ''-o'', ''ppid=,comm=''])]\<rparr>)"
    using runCommand_calls
            [of sp "''ps''" "[''-p'', int_toString currentPid, ''-o'', ''ppid=,comm='']" w]
    by auto
  let ?w1 = "\<lparr>os = st, calls = calls w @
              [(''ps'', [''-p'', int_toString currentPid, ''-o'', ''ppid=,comm=''])]\<rparr>"
  show ?case
  proof (cases r1)
    case (Inl e)
    with run Suc.prems show ?thesis
      by (auto simp add: processTreeWalk.simps bindE_def)
  next
    case (Inr psOutput)
    show ?thesis
    proof (cases "ppidOf psOutput")
      case NaN
      with Inr run Suc.prems show ?thesis
        by (auto simp add: processTreeWalk.simps bindE_def ret_def)
    next
      case (Num ppid)
      show ?thesis
      proof (cases "ppid = 0 \<or> ppid = 1 \<or> matchAncestor (commandOf psOutput) \<noteq> None")
        case True
        with Num Inr run Suc.prems show ?thesis
          by (auto simp add: processTreeWalk.simps bindE_def ret_def split: if_splits)
      next
        case False
        with Num Inr run Suc.prems have "processTreeWalk sp n ppid ?w1 = (r, w')"
          by (simp add: processTreeWalk.simps bindE_def)
        from Suc.IH [OF this] show ?thesis by simp
      qed
    qed
  qed
qed

text \<open>
  Claim C10. At any hop of the walk (any process id, any number of remaining
  iterations, any state), when \<^verbatim>\<open>ps\<close> answers and the reported parent id is 0, 1
  or not a number, the loop is left at once and the walk yields no terminal: the
  command name on the same line is never looked at. So a terminal emulator whose
  own parent is the init process is not recognised by this strategy.
\<close>

theorem walk_stops_before_matching:
  "runCommand sp ''ps'' [''-p'', int_toString currentPid, ''-o'', ''ppid=,comm=''] w =
     (Inr psOutput, w') \<and>
   ppidOf psOutput \<in> {NaN, Num 0, Num 1}
   \<longrightarrow> processTreeWalk sp (Suc remaining) currentPid w = (Inr None, w')"
  using walk_break [of sp currentPid w psOutput w' remaining] by blast

theorem walk_stops_before_matching_witness:
  "matchAncestor (commandOf (''    1 /Applications/iTerm.app/Contents/MacOS/iTerm2'' @ [CHR 0x0A]))
     = Some iTerm2 \<and>
   processTreeWalk iterm_under_init (Suc 9) 4000 (fresh ()) =
     (Inr None, \<lparr>os = (), calls = [ps_query 4000]\<rparr>)"
proof -
  have run: "runCommand iterm_under_init ''ps'' [''-p'', int_toString 4000, ''-o'', ''ppid=,comm='']
               (fresh ()) =
             (Inr (''    1 /Applications/iTerm.app/Contents/MacOS/iTerm2'' @ [CHR 0x0A]),
              \<lparr>os = (), calls = [ps_query 4000]\<rparr>)"
    by (simp add: runCommand_def iterm_under_init_def ps_query_def fresh_def string_eval)
  have init: "ppidOf (''    1 /Applications/iTerm.app/Contents/MacOS/iTerm2'' @ [CHR 0x0A]) = Num 1"
    by (simp add: string_eval)
  have name: "matchAncestor
      (commandOf (''    1 /Applications/iTerm.app/Contents/MacOS/iTerm2'' @ [CHR 0x0A])) = Some iTerm2"
    by (simp add: matchAncestor_def string_eval)
  from walk_stops_before_matching
         [of iterm_under_init 4000 "fresh ()"
             "''    1 /Applications/iTerm.app/Contents/MacOS/iTerm2'' @ [CHR 0x0A]"
             "\<lparr>os = (), calls = [ps_query 4000]\<rparr>" 9]
       run init name
  show ?thesis by simp
qed

lemma runCommand_ps:
  "runCommand sp ''ps'' [''-p'', int_toString p, ''-o'', ''ppid=,comm=''] w =
     (case sp (os w) (ps_query p) of
        (out, o') \<Rightarrow>
          ((case out of
              Exited code stdout stderr \<Rightarrow>
                (if code = 0 then Inr stdout
                 else Inl (CommandError
                             (''Command failed: '' @ ''ps'' @ '' '' @
                              join '' '' [''-p'', int_toString p, ''-o'', ''ppid=,comm=''] @
                              [CHR 0x0A] @ stderr)
                             code stderr stdout))
            | SpawnFailed msg \<Rightarrow> Inl (SpawnError msg)),
           \<lparr>os = o', calls = calls w @ [ps_query p]\<rparr>))"
  by (simp add: runCommand_def ps_query_def)

lemma ps_query_inject [simp]: "ps_query p = ps_query q \<longleftrightarrow> int_toString p = int_toString q"
  by (simp add: ps_query_def)

text \<open>
  Claim C5, at the scenario it names. No marker is set, \<^verbatim>\<open>TMUX\<close> is absent and the
  ancestry is caller, shell, alacritty, login: the walk queries all four processes,
  finds no match and stops at login, whose parent is the init process, so the
  resolver answers \<open>Unknown\<close>. The table of the walk has no entry for alacritty,
  whereas the table applied to the holders of a client's TTY has one.
\<close>

theorem scenario2_returns_Unknown:
  "detectTerminalEmulator Map.empty under_alacritty 4242 (fresh ()) =
     (Inr Unknown,
      \<lparr>os = (), calls = [ps_query 4242, ps_query 4100, ps_query 4000, ps_query 350]\<rparr>) \<and>
   matchAncestor (Some ''/Applications/Alacritty.app/Contents/MacOS/alacritty'') = None \<and>
   matchTtyHolder ''/Applications/Alacritty.app/Contents/MacOS/alacritty'' = Some alacritty"
proof -
  have s [simp]: "int_toString 4242 = ''4242''" "int_toString 4100 = ''4100''"
    "int_toString 4000 = ''4000''" "int_toString 350 = ''350''"
    by (simp_all add: string_eval)
  have r1: "runCommand under_alacritty ''ps'' [''-p'', int_toString 4242, ''-o'', ''ppid=,comm='']
              (fresh ()) =
            (Inr ('' 4100 node'' @ [CHR 0x0A]), \<lparr>os = (), calls = [ps_query 4242]\<rparr>)"
    unfolding runCommand_ps by (simp add: under_alacritty_def fresh_def)
  have r2: "runCommand under_alacritty ''ps'' [''-p'', int_toString 4100, ''-o'', ''ppid=,comm='']
              \<lparr>os = (), calls = [ps_query 4242]\<rparr> =
            (Inr ('' 4000 -zsh'' @ [CHR 0x0A]), \<lparr>os = (), calls = [ps_query 4242, ps_query 4100]\<rparr>)"
    unfolding runCommand_ps by (simp add: under_alacritty_def)
  have r3: "runCommand under_alacritty ''ps'' [''-p'', int_toString 4000, ''-o'', ''ppid=,comm='']
              \<lparr>os = (), calls = [ps_query 4242, ps_query 4100]\<rparr> =
            (Inr (''  350 /Applications/Alacritty.app/Contents/MacOS/alacritty'' @ [CHR 0x0A]),
             \<lparr>os = (), calls = [ps_query 4242, ps_query 4100, ps_query 4000]\<rparr>)"
    unfolding runCommand_ps by (simp add: under_alacritty_def)
  have r4: "runCommand under_alacritty ''ps'' [''-p'', int_toString 350, ''-o'', ''ppid=,comm='']
              \<lparr>os = (), calls = [ps_query 4242, ps_query 4100, ps_query 4000]\<rparr> =
            (Inr (''    1 login'' @ [CHR 0x0A]),
             \<lparr>os = (), calls = [ps_query 4242, ps_query 4100, ps_query 4000, ps_query 350]\<rparr>)"
    unfolding runCommand_ps by (simp add: under_alacritty_def)
  have p1: "ppidOf ('' 4100 node'' @ [CHR 0x0A]) = Num 4100"
    and c1: "matchAncestor (commandOf ('' 4100 node'' @ [CHR 0x0A])) = None"
    by (simp_all add: matchAncestor_def string_eval)
  have p2: "ppidOf ('' 4000 -zsh'' @ [CHR 0x0A]) = Num 4000"
    and c2: "matchAncestor (commandOf ('' 4000 -zsh'' @ [CHR 0x0A])) = None"
    by (simp_all add: matchAncestor_def string_eval)
  have p3: "ppidOf (''  350 /Applications/Alacritty.app/Contents/MacOS/alacritty'' @ [CHR 0x0A]) = Num 350"
    and c3: "matchAncestor (commandOf
               (''  350 /Applications/Alacritty.app/Contents/MacOS/alacritty'' @ [CHR 0x0A])) = None"
    by (simp_all add: matchAncestor_def string_eval)
  have p4: "ppidOf (''    1 login'' @ [CHR 0x0A]) \<in> {NaN, Num 0, Num 1}"
    by (simp add: string_eval)
  have "processTreeWalk under_alacritty (Suc (Suc (Suc (Suc 6)))) 4242 (fresh ()) =
          processTreeWalk under_alacritty (Suc (Suc (Suc 6))) 4100 \<lparr>os = (), calls = [ps_query 4242]\<rparr>"
    by (rule walk_hop [OF r1 p1 _ _ c1]) simp_all
  also have "\<dots> = processTreeWalk under_alacritty (Suc (Suc 6)) 4000
                     \<lparr>os = (), calls = [ps_query 4242, ps_query 4100]\<rparr>"
    by (rule walk_hop [OF r2 p2 _ _ c2]) simp_all
  also have "\<dots> = processTreeWalk under_alacritty (Suc 6) 350
                     \<lparr>os = (), calls = [ps_query 4242, ps_query 4100, ps_query 4000]\<rparr>"
    by (rule walk_hop [OF r3 p3 _ _ c3]) simp_all
  also have "\<dots> = (Inr None,
                    \<lparr>os = (), calls = [ps_query 4242, ps_query 4100, ps_query 4000, ps_query 350]\<rparr>)"
    by (rule walk_break [OF r4 p4])
  finally have walk: "processTreeWalk under_alacritty maxDepth 4242 (fresh ()) =
      (Inr None, \<lparr>os = (), calls = [ps_query 4242, ps_query 4100, ps_query 4000, ps_query 350]\<rparr>)"
    by (simp add: maxDepth_def)
  have markers: "detectFromMarkers Map.empty = None"
    by (simp add: detectFromMarkers_def)
  have resolver: "detectTerminalEmulator Map.empty under_alacritty 4242 (fresh ()) =
     (Inr Unknown,
      \<lparr>os = (), calls = [ps_query 4242, ps_query 4100, ps_query 4000, ps_query 350]\<rparr>)"
    using walk by (simp add: detectTerminalEmulator_def markers catchE_def bindE_def ret_def)
  have tables: "matchAncestor (Some ''/Applications/Alacritty.app/Contents/MacOS/alacritty'') = None"
    "matchTtyHolder ''/Applications/Alacritty.app/Contents/MacOS/alacritty'' = Some alacritty"
    by (simp_all add: matchAncestor_def matchTtyHolder_def)
  from resolver tables show ?thesis by simp
qed

section \<open>The most recently active client\<close>





section \<open>The application path\<close>

lemma sendNotification_launches:
  assumes "appPath n \<noteq> []"
  shows "\<exists>t r w'. sendNotification n env sp pid options w = (r, w') \<and>
           (\<forall>msg. r \<noteq> Inl (Error msg)) \<and>
           calls w' \<noteq> [] \<and> last (calls w') = (''/usr/bin/open'', openArgs n t options)"
proof -
  obtain t w1 where d: "detectTerminalEmulator env sp pid w = (Inr t, w1)"
    using detectTerminalEmulator_total by blast
  obtain r st where
    run: "runCommand sp ''/usr/bin/open'' (openArgs n t options) w1 =
            (r, \<lparr>os = st, calls = calls w1 @ [(''/usr/bin/open'', openArgs n t options)]\<rparr>)"
    and r: "\<forall>msg. r \<noteq> Inl (Error msg)"
    using runCommand_result [of sp "''/usr/bin/open''" "openArgs n t options" w1] by auto
  let ?w2 = "\<lparr>os = st, calls = calls w1 @ [(''/usr/bin/open'', openArgs n t options)]\<rparr>"
  have "sendNotification n env sp pid options w =
          ((case r of Inl e \<Rightarrow> Inl e | Inr _ \<Rightarrow> Inr ()), ?w2)"
    using assms d run by (cases r) (simp_all add: sendNotification_def bindE_def ret_def)
  moreover have "\<forall>msg. (case r of Inl e \<Rightarrow> Inl e | Inr _ \<Rightarrow> Inr ()) \<noteq> Inl (Error msg)"
    using r by (cases r) simp_all
  ultimately show ?thesis
    by (intro exI [of _ t] exI [of _ "case r of Inl e \<Rightarrow> Inl e | Inr _ \<Rightarrow> Inr ()"] exI [of _ ?w2])
       simp
qed

text \<open>
  Claim C4 as stated fails. A notifier built without a custom path on a machine
  where the bundle exists at neither probed location does not fail with the
  not-found error: the constructor falls back to the package-relative path, and
  \<^verbatim>\<open>sendNotification\<close> resolves the terminal and tries to launch that path.
\<close>

theorem missing_bundle_counterexample:
  "\<not> (sendNotification
         (constructor None (\<lambda>path. False) ''/pkg/MacOSNotifyMCP/MacOSNotifyMCP.app''
            ''/work/MacOSNotifyMCP/MacOSNotifyMCP.app'')
         in_iterm bundle_missing 4242 hello (fresh ()) =
       (Inl (Error ''MacOSNotifyMCP.app not found''), fresh ())) \<and>
   calls (snd (sendNotification
         (constructor None (\<lambda>path. False) ''/pkg/MacOSNotifyMCP/MacOSNotifyMCP.app''
            ''/work/MacOSNotifyMCP/MacOSNotifyMCP.app'')
         in_iterm bundle_missing 4242 hello (fresh ()))) =
     [(''/usr/bin/open'',
       [''-n'', ''/pkg/MacOSNotifyMCP/MacOSNotifyMCP.app'', ''--args'', ''-t'', ''Build'',
        ''-m'', ''done'', ''--sound'', ''Glass'', ''--terminal'', ''iTerm2''])]"
  by (simp add: sendNotification_def constructor_def detectTerminalEmulator_def
        detectFromMarkers_def in_iterm_def bundle_missing_def hello_def openArgs_def
        runCommand_def bindE_def ret_def fresh_def)

text \<open>
  Claim C4, amended. \<^verbatim>\<open>sendNotification\<close> fails with the not-found error, before
  any command is run, when the stored application path is the empty string; with a
  non-empty path it never fails with a plain \<^verbatim>\<open>Error\<close>, and the last command it
  runs is the launch of \<^verbatim>\<open>/usr/bin/open\<close> with that path. The constructor stores
  the package-relative path when no custom path is given and neither probed
  location exists, and never stores an empty path when the package-relative path
  is non-empty.
\<close>

theorem not_found_iff_empty_path:
  "(appPath n = [] \<longrightarrow>
      sendNotification n env sp pid options w = (Inl (Error ''MacOSNotifyMCP.app not found''), w)) \<and>
   (appPath n \<noteq> [] \<longrightarrow>
      (\<forall>msg. fst (sendNotification n env sp pid options w) \<noteq> Inl (Error msg)) \<and>
      (\<exists>t. last (calls (snd (sendNotification n env sp pid options w))) =
             (''/usr/bin/open'', openArgs n t options))) \<and>
   (\<not> truthy customAppPath \<and> \<not> existsSync pkgPath \<and> \<not> existsSync devPath \<longrightarrow>
      appPath (constructor customAppPath existsSync pkgPath devPath) = pkgPath) \<and>
   (pkgPath \<noteq> [] \<longrightarrow> appPath (constructor customAppPath existsSync pkgPath devPath) \<noteq> [])"
proof (intro conjI impI)
  assume "appPath n = []"
  then show "sendNotification n env sp pid options w =
               (Inl (Error ''MacOSNotifyMCP.app not found''), w)"
    by (simp add: sendNotification_def throw_def)
next
  assume "appPath n \<noteq> []"
  from sendNotification_launches [OF this, of env sp pid options w]
  obtain t r w' where "sendNotification n env sp pid options w = (r, w')"
    "\<forall>msg. r \<noteq> Inl (Error msg)" "last (calls w') = (''/usr/bin/open'', openArgs n t options)"
    by blast
  then show "\<forall>msg. fst (sendNotification n env sp pid options w) \<noteq> Inl (Error msg)"
    and "\<exists>t. last (calls (snd (sendNotification n env sp pid options w))) =
             (''/usr/bin/open'', openArgs n t options)"
    by auto
next
  assume "\<not> truthy customAppPath \<and> \<not> existsSync pkgPath \<and> \<not> existsSync devPath"
  then show "appPath (constructor customAppPath existsSync pkgPath devPath) = pkgPath"
    by (simp add: constructor_def)
next
  assume "pkgPath \<noteq> []"
  then show "appPath (constructor customAppPath existsSync pkgPath devPath) \<noteq> []"
    by (cases customAppPath) (auto simp add: constructor_def Let_def split: option.splits dest: find_Some_iff [THEN iffD1])
qed

theorem not_found_iff_empty_path_witness:
  "sendNotification \<lparr>appPath = [], defaultTitle = ''macos-notify-mcp''\<rparr>
       in_iterm bundle_missing 4242 hello (fresh ()) =
     (Inl (Error ''MacOSNotifyMCP.app not found''), fresh ()) \<and>
   fst (sendNotification
          (constructor None (\<lambda>path. False) ''/pkg/MacOSNotifyMCP/MacOSNotifyMCP.app''
             ''/work/MacOSNotifyMCP/MacOSNotifyMCP.app'')
          in_iterm bundle_missing 4242 hello (fresh ())) \<noteq>
     Inl (Error ''MacOSNotifyMCP.app not found'') \<and>
   appPath (constructor None (\<lambda>path. False) ''/pkg/MacOSNotifyMCP/MacOSNotifyMCP.app''
              ''/work/MacOSNotifyMCP/MacOSNotifyMCP.app'') =
     ''/pkg/MacOSNotifyMCP/MacOSNotifyMCP.app''"
proof -
  let ?n = "constructor None (\<lambda>path. False) ''/pkg/MacOSNotifyMCP/MacOSNotifyMCP.app''
              ''/work/MacOSNotifyMCP/MacOSNotifyMCP.app''"
  have path: "appPath ?n = ''/pkg/MacOSNotifyMCP/MacOSNotifyMCP.app''"
    using not_found_iff_empty_path
            [of "\<lparr>appPath = [], defaultTitle = []\<rparr>" in_iterm bundle_missing 4242 hello "fresh ()"
                None "\<lambda>path. False" "''/pkg/MacOSNotifyMCP/MacOSNotifyMCP.app''"
                "''/work/MacOSNotifyMCP/MacOSNotifyMCP.app''"]
    by simp
  then have nonempty: "appPath ?n \<noteq> []"
    by simp
  have empty: "appPath \<lparr>appPath = [], defaultTitle = ''macos-notify-mcp''\<rparr> = []"
    by simp
  from not_found_iff_empty_path
         [of "\<lparr>appPath = [], defaultTitle = ''macos-notify-mcp''\<rparr>" in_iterm bundle_missing
             4242 hello "fresh ()"] empty
  have first: "sendNotification \<lparr>appPath = [], defaultTitle = ''macos-notify-mcp''\<rparr>
       in_iterm bundle_missing 4242 hello (fresh ()) =
     (Inl (Error ''MacOSNotifyMCP.app not found''), fresh ())"
    by blast
  from not_found_iff_empty_path [of ?n in_iterm bundle_missing 4242 hello "fresh ()"] nonempty
  have second: "fst (sendNotification ?n in_iterm bundle_missing 4242 hello (fresh ())) \<noteq>
     Inl (Error ''MacOSNotifyMCP.app not found'')"
    by blast
  from first second path show ?thesis by blast
qed

section \<open>Pane without window\<close>






section \<open>A missing message\<close>







end
